theory Spec2Isabelle
  imports Main
begin

section \<open>Data model (backend/app/models.py)\<close>

text \<open>
  Identifiers are the values of the \<open>UUID\<close> columns; they are opaque, so a natural number
  stands for each. A path parameter (\<open>course_id\<close>, \<open>module_id\<close>, \<open>lesson_id\<close>) is taken as the
  identifier it denotes. \<open>DateTime\<close> values are points on a discrete clock.
  Nullable text and integer columns are options. The Boolean columns carry a default and
  are set by every writer of the repository; they are plain truth values here. The audit
  columns \<open>created_at\<close> and \<open>updated_at\<close>, which the column defaults fill in at flush
  time and which no handler reads, are left out of the rows.
\<close>

type_synonym uuid = nat
type_synonym datetime = nat

datatype UserRole = ADMIN | FACULTY | STUDENT

datatype ContentType = PDF | VIDEO | TEXT

record Tenant =
  tenant_id :: uuid
  tenant_name :: string
  tenant_domain :: "string option"
  tenant_is_active :: bool

record User =
  user_id :: uuid
  user_tenant_id :: uuid
  user_email :: string
  user_password_hash :: string
  user_full_name :: string
  user_phone :: "string option"
  user_bio :: "string option"
  user_role :: UserRole
  user_is_active :: bool

record Course =
  course_id :: uuid
  course_tenant_id :: uuid
  course_dept_id :: "uuid option"
  course_title :: string
  course_code :: "string option"
  course_description :: "string option"
  course_faculty_name :: "string option"
  course_is_active :: bool

record CourseEnrollment =
  ce_id :: uuid
  ce_course_id :: uuid
  ce_student_id :: uuid
  ce_tenant_id :: uuid

record Module =
  module_id :: uuid
  module_tenant_id :: uuid
  module_course_id :: uuid
  module_title :: string
  module_sequence_order :: int

record ContentItem =
  ci_id :: uuid
  ci_tenant_id :: uuid
  ci_module_id :: uuid
  ci_title :: string
  ci_type :: ContentType
  ci_file_url :: "string option"
  ci_text_content :: "string option"
  ci_duration_minutes :: "int option"
  ci_sequence_order :: int

record LessonProgress =
  lp_id :: uuid
  lp_student_id :: uuid
  lp_content_item_id :: uuid
  lp_is_completed :: bool
  lp_completed_at :: "datetime option"

text \<open>
  The database session: one list per table, in the order in which the table yields its
  rows. \<open>query(...).filter(p).first()\<close> is \<^const>\<open>List.find\<close> on that list,
  \<open>.all()\<close> is \<^const>\<open>filter\<close>, \<open>db.add\<close> followed by \<open>db.commit\<close> appends a row.
\<close>

record Database =
  tenants :: "Tenant list"
  users :: "User list"
  courses :: "Course list"
  course_enrollments :: "CourseEnrollment list"
  modules :: "Module list"
  content_items :: "ContentItem list"
  lesson_progress :: "LessonProgress list"

section \<open>Errors\<close>

text \<open>
  \<open>HTTPException(status_code, detail)\<close> is what the handlers raise themselves. The other
  constructors are Python exceptions that no handler catches (the framework answers 500).
\<close>

datatype error =
    HTTPException nat string
  | AttributeError string
  | ValueError string
  | KeyError string

abbreviation HTTP_400_BAD_REQUEST :: nat where "HTTP_400_BAD_REQUEST \<equiv> 400"
abbreviation HTTP_401_UNAUTHORIZED :: nat where "HTTP_401_UNAUTHORIZED \<equiv> 401"
abbreviation HTTP_403_FORBIDDEN :: nat where "HTTP_403_FORBIDDEN \<equiv> 403"
abbreviation HTTP_404_NOT_FOUND :: nat where "HTTP_404_NOT_FOUND \<equiv> 404"

section \<open>Request and response models\<close>

text \<open>
  \<open>SignupRequest\<close> (routers/auth.py, lines 14-20) declares five fields; the sixth,
  \<open>tenant_id\<close>, is commented out in the class body.
\<close>

record SignupRequest =
  sr_email :: string
  sr_password :: string
  sr_full_name :: string
  sr_phone :: "string option"
  sr_role :: string

record LoginRequest =
  lr_email :: string
  lr_password :: string

record TokenResponse =
  access_token :: string
  token_type :: string

record UserResponse =
  ur_id :: uuid
  ur_email :: string
  ur_full_name :: string
  ur_role :: UserRole
  ur_tenant_id :: uuid

record CourseBasic =
  cb_id :: uuid
  cb_title :: string
  cb_code :: "string option"
  cb_faculty_name :: "string option"

record CourseDetail =
  cd_id :: uuid
  cd_title :: string
  cd_code :: "string option"
  cd_description :: "string option"
  cd_faculty_name :: "string option"

record ModuleResponse =
  mr_id :: uuid
  mr_title :: string
  mr_sequence_order :: int

record LessonBasic =
  lb_id :: uuid
  lb_title :: string
  lb_content_type :: ContentType
  lb_duration_minutes :: "int option"
  lb_sequence_order :: int
  lb_is_completed :: bool

record LessonDetail =
  ld_id :: uuid
  ld_title :: string
  ld_content_type :: ContentType
  ld_file_url :: "string option"
  ld_text_content :: "string option"
  ld_duration_minutes :: "int option"
  ld_sequence_order :: int
  ld_is_completed :: bool

record CompleteResponse =
  cr_message :: string
  cr_lesson_id :: uuid
  cr_completed_at :: datetime

section \<open>Courses (backend/app/routers/courses.py)\<close>

text \<open>The three-column filter on \<open>CourseEnrollment\<close> that every handler but the first uses.\<close>

definition enrollment_for :: "uuid \<Rightarrow> User \<Rightarrow> CourseEnrollment \<Rightarrow> bool" where
  "enrollment_for cid current_user e \<longleftrightarrow>
     ce_course_id e = cid \<and> ce_student_id e = user_id current_user
     \<and> ce_tenant_id e = user_tenant_id current_user"

definition CourseBasic_of :: "Course \<Rightarrow> CourseBasic" where
  "CourseBasic_of course =
     \<lparr>cb_id = course_id course, cb_title = course_title course,
      cb_code = course_code course, cb_faculty_name = course_faculty_name course\<rparr>"

definition CourseDetail_of :: "Course \<Rightarrow> CourseDetail" where
  "CourseDetail_of course =
     \<lparr>cd_id = course_id course, cd_title = course_title course,
      cd_code = course_code course, cd_description = course_description course,
      cd_faculty_name = course_faculty_name course\<rparr>"

text \<open>The loop of \<open>get_my_courses\<close> (lines 60-73): one course query per enrollment row.\<close>

fun my_courses_loop :: "Database \<Rightarrow> CourseEnrollment list \<Rightarrow> CourseBasic list" where
  "my_courses_loop db [] = []"
| "my_courses_loop db (enrollment # rest) =
     (case find (\<lambda>c. course_id c = ce_course_id enrollment \<and> course_is_active c) (courses db) of
        Some course \<Rightarrow> CourseBasic_of course # my_courses_loop db rest
      | None \<Rightarrow> my_courses_loop db rest)"

definition get_my_courses :: "User \<Rightarrow> Database \<Rightarrow> CourseBasic list" where
  "get_my_courses current_user db =
     my_courses_loop db
       (filter (\<lambda>e. ce_student_id e = user_id current_user
                    \<and> ce_tenant_id e = user_tenant_id current_user)
          (course_enrollments db))"

definition get_course_detail :: "uuid \<Rightarrow> User \<Rightarrow> Database \<Rightarrow> error + CourseDetail" where
  "get_course_detail cid current_user db =
     (case find (enrollment_for cid current_user) (course_enrollments db) of
        None \<Rightarrow> Inl (HTTPException HTTP_403_FORBIDDEN ''You are not enrolled in this course'')
      | Some enrollment \<Rightarrow>
          (case find (\<lambda>c. course_id c = cid \<and> course_is_active c) (courses db) of
             None \<Rightarrow> Inl (HTTPException HTTP_404_NOT_FOUND ''Course not found'')
           | Some course \<Rightarrow> Inr (CourseDetail_of course)))"

definition ModuleResponse_of :: "Module \<Rightarrow> ModuleResponse" where
  "ModuleResponse_of m =
     \<lparr>mr_id = module_id m, mr_title = module_title m,
      mr_sequence_order = module_sequence_order m\<rparr>"

text \<open>
  \<open>order_by(sequence_order)\<close> sorts the selected rows on the key and leaves the order of
  rows with equal keys to the database. The sort is therefore an argument of the two
  handlers that use it, applied as \<open>order_by key rows\<close>; a stable sort such as
  \<^const>\<open>sort_key\<close> is one instance.
\<close>

definition get_course_modules :: "((Module \<Rightarrow> int) \<Rightarrow> Module list \<Rightarrow> Module list)
    \<Rightarrow> uuid \<Rightarrow> User \<Rightarrow> Database \<Rightarrow> error + ModuleResponse list" where
  "get_course_modules order_by cid current_user db =
     (case find (enrollment_for cid current_user) (course_enrollments db) of
        None \<Rightarrow> Inl (HTTPException HTTP_403_FORBIDDEN ''You are not enrolled in this course'')
      | Some enrollment \<Rightarrow>
          Inr (map ModuleResponse_of
                 (order_by module_sequence_order
                    (filter (\<lambda>m. module_course_id m = cid
                                 \<and> module_tenant_id m = user_tenant_id current_user)
                       (modules db)))))"

section \<open>Content (backend/app/routers/content.py)\<close>

text \<open>\<open>progress.is_completed if progress else False\<close> for the requester and one lesson.\<close>

definition progress_for :: "User \<Rightarrow> uuid \<Rightarrow> LessonProgress \<Rightarrow> bool" where
  "progress_for current_user lid p \<longleftrightarrow>
     lp_student_id p = user_id current_user \<and> lp_content_item_id p = lid"

definition is_completed_flag :: "User \<Rightarrow> uuid \<Rightarrow> Database \<Rightarrow> bool" where
  "is_completed_flag current_user lid db =
     (case find (progress_for current_user lid) (lesson_progress db) of
        Some progress \<Rightarrow> lp_is_completed progress
      | None \<Rightarrow> False)"

definition LessonBasic_of :: "User \<Rightarrow> Database \<Rightarrow> ContentItem \<Rightarrow> LessonBasic" where
  "LessonBasic_of current_user db lesson =
     \<lparr>lb_id = ci_id lesson, lb_title = ci_title lesson, lb_content_type = ci_type lesson,
      lb_duration_minutes = ci_duration_minutes lesson,
      lb_sequence_order = ci_sequence_order lesson,
      lb_is_completed = is_completed_flag current_user (ci_id lesson) db\<rparr>"

definition LessonDetail_of :: "User \<Rightarrow> Database \<Rightarrow> ContentItem \<Rightarrow> LessonDetail" where
  "LessonDetail_of current_user db lesson =
     \<lparr>ld_id = ci_id lesson, ld_title = ci_title lesson, ld_content_type = ci_type lesson,
      ld_file_url = ci_file_url lesson, ld_text_content = ci_text_content lesson,
      ld_duration_minutes = ci_duration_minutes lesson,
      ld_sequence_order = ci_sequence_order lesson,
      ld_is_completed = is_completed_flag current_user (ci_id lesson) db\<rparr>"

definition get_module_lessons :: "((ContentItem \<Rightarrow> int) \<Rightarrow> ContentItem list \<Rightarrow> ContentItem list)
    \<Rightarrow> uuid \<Rightarrow> User \<Rightarrow> Database \<Rightarrow> error + LessonBasic list" where
  "get_module_lessons order_by mid current_user db =
     (case find (\<lambda>m. module_id m = mid \<and> module_tenant_id m = user_tenant_id current_user)
             (modules db) of
        None \<Rightarrow> Inl (HTTPException HTTP_404_NOT_FOUND ''Module not found'')
      | Some module \<Rightarrow>
          (case find (enrollment_for (module_course_id module) current_user)
                  (course_enrollments db) of
             None \<Rightarrow> Inl (HTTPException HTTP_403_FORBIDDEN ''You are not enrolled in this course'')
           | Some enrollment \<Rightarrow>
               Inr (map (LessonBasic_of current_user db)
                      (order_by ci_sequence_order
                         (filter (\<lambda>l. ci_module_id l = mid
                                      \<and> ci_tenant_id l = user_tenant_id current_user)
                            (content_items db))))))"

text \<open>
  In \<open>get_lesson_content\<close> and \<open>mark_lesson_complete\<close> the module is looked up by
  \<open>lesson.module_id\<close> alone and its \<open>course_id\<close> is read without a test: when the query
  yields \<open>None\<close> the attribute access raises.
\<close>

definition get_lesson_content :: "uuid \<Rightarrow> User \<Rightarrow> Database \<Rightarrow> error + LessonDetail" where
  "get_lesson_content lid current_user db =
     (case find (\<lambda>l. ci_id l = lid \<and> ci_tenant_id l = user_tenant_id current_user)
             (content_items db) of
        None \<Rightarrow> Inl (HTTPException HTTP_404_NOT_FOUND ''Lesson not found'')
      | Some lesson \<Rightarrow>
          (case find (\<lambda>m. module_id m = ci_module_id lesson) (modules db) of
             None \<Rightarrow> Inl (AttributeError ''course_id'')
           | Some module \<Rightarrow>
               (case find (enrollment_for (module_course_id module) current_user)
                       (course_enrollments db) of
                  None \<Rightarrow>
                    Inl (HTTPException HTTP_403_FORBIDDEN ''You are not enrolled in this course'')
                | Some enrollment \<Rightarrow> Inr (LessonDetail_of current_user db lesson))))"

text \<open>
  The write of \<open>mark_lesson_complete\<close> (lines 202-227). The row that \<open>.first()\<close> returned
  is the one whose attributes are assigned, and the commit writes that row back. The list
  keeps the row at its position. Which of several rows for one (student, lesson) pair a
  later \<open>.first()\<close> yields is the database's choice and not fixed by the list order, so a
  statement about the row read back after a write is made only for tables with at most one
  row per pair (\<open>unique_progress\<close> below), where the order does not matter.
\<close>

fun update_first :: "('a \<Rightarrow> bool) \<Rightarrow> ('a \<Rightarrow> 'a) \<Rightarrow> 'a list \<Rightarrow> 'a list" where
  "update_first P f [] = []"
| "update_first P f (x # xs) = (if P x then f x # xs else x # update_first P f xs)"

definition upsert_progress :: "User \<Rightarrow> uuid \<Rightarrow> datetime \<Rightarrow> uuid \<Rightarrow> LessonProgress list
    \<Rightarrow> LessonProgress list" where
  "upsert_progress current_user lid completed_time new_id rows =
     (case find (progress_for current_user lid) rows of
        Some progress \<Rightarrow>
          update_first (progress_for current_user lid)
            (\<lambda>p. p\<lparr>lp_is_completed := True, lp_completed_at := Some completed_time\<rparr>) rows
      | None \<Rightarrow>
          rows @ [\<lparr>lp_id = new_id, lp_student_id = user_id current_user,
                   lp_content_item_id = lid, lp_is_completed = True,
                   lp_completed_at = Some completed_time\<rparr>])"

text \<open>
  \<open>completed_time\<close> is the value of \<open>datetime.utcnow()\<close> and \<open>new_id\<close> the value of
  \<open>uuid.uuid4()\<close> in this call. The handler returns its response and the database after
  the commit; a raised exception leaves the database as it was.
\<close>

definition mark_lesson_complete ::
    "uuid \<Rightarrow> User \<Rightarrow> datetime \<Rightarrow> uuid \<Rightarrow> Database \<Rightarrow> (error + CompleteResponse) \<times> Database" where
  "mark_lesson_complete lid current_user completed_time new_id db =
     (case find (\<lambda>l. ci_id l = lid \<and> ci_tenant_id l = user_tenant_id current_user)
             (content_items db) of
        None \<Rightarrow> (Inl (HTTPException HTTP_404_NOT_FOUND ''Lesson not found''), db)
      | Some lesson \<Rightarrow>
          (case find (\<lambda>m. module_id m = ci_module_id lesson) (modules db) of
             None \<Rightarrow> (Inl (AttributeError ''course_id''), db)
           | Some module \<Rightarrow>
               (case find (enrollment_for (module_course_id module) current_user)
                       (course_enrollments db) of
                  None \<Rightarrow>
                    (Inl (HTTPException HTTP_403_FORBIDDEN ''You are not enrolled in this course''),
                     db)
                | Some enrollment \<Rightarrow>
                    (Inr \<lparr>cr_message = ''Lesson marked as complete'',
                          cr_lesson_id = ci_id lesson,
                          cr_completed_at = completed_time\<rparr>,
                     db\<lparr>lesson_progress :=
                          upsert_progress current_user (ci_id lesson) completed_time new_id
                            (lesson_progress db)\<rparr>))))"

section \<open>Authentication (backend/app/routers/auth.py)\<close>

text \<open>
  \<open>hash_password\<close>, \<open>verify_password\<close> and \<open>create_token\<close> come from \<open>app.auth\<close> and
  \<open>uuid.UUID\<close>, \<open>uuid.uuid4\<close> from the standard library; the handlers below take them
  (or the values they return in the call) as arguments.
\<close>

text \<open>
  \<open>str.upper\<close> is defined on all of Unicode; \<open>signup\<close> takes it as the argument
  \<open>upper\<close>, so that what is proved of \<open>signup\<close> holds for Python's function. Its
  restriction to the ASCII letters, used on the example requests, is \<open>str_upper\<close>.
\<close>

definition char_upper :: "char \<Rightarrow> char" where
  "char_upper c =
     (let n = (of_char c :: nat) in if 97 \<le> n \<and> n \<le> 122 then char_of (n - 32) else c)"

definition str_upper :: "string \<Rightarrow> string" where
  "str_upper s = map char_upper s"

definition valid_roles :: "string list" where
  "valid_roles = [''ADMIN'', ''FACULTY'', ''STUDENT'']"

text \<open>\<open>UserRole[name]\<close>: lookup of an enum member by name.\<close>

definition UserRole_named :: "string \<Rightarrow> UserRole option" where
  "UserRole_named s =
     (if s = ''ADMIN'' then Some ADMIN
      else if s = ''FACULTY'' then Some FACULTY
      else if s = ''STUDENT'' then Some STUDENT
      else None)"

text \<open>
  \<open>signup_data.tenant_id\<close> (line 65): \<open>SignupRequest\<close> has no such field, and a pydantic
  model raises \<open>AttributeError\<close> on an attribute that is neither a field nor a class
  attribute.
\<close>

definition SignupRequest_tenant_id :: "SignupRequest \<Rightarrow> error + string option" where
  "SignupRequest_tenant_id signup_data =
     Inl (AttributeError ''SignupRequest object has no attribute tenant_id'')"

text \<open>Lines 68-81: the first tenant, or a default one that is created and committed.\<close>

definition first_or_default_tenant :: "uuid \<Rightarrow> Database \<Rightarrow> uuid \<times> Database" where
  "first_or_default_tenant tenant_uuid4 db =
     (case tenants db of
        default_tenant # _ \<Rightarrow> (tenant_id default_tenant, db)
      | [] \<Rightarrow>
          (tenant_uuid4,
           db\<lparr>tenants := tenants db @
                 [\<lparr>tenant_id = tenant_uuid4, tenant_name = ''Default Medical College'',
                   tenant_domain = Some ''default.medlms.com'', tenant_is_active = True\<rparr>]\<rparr>))"

text \<open>Lines 83-105: the new row, the commit and the response.\<close>

definition create_user :: "(string \<Rightarrow> string) \<Rightarrow> (string \<Rightarrow> string) \<Rightarrow> uuid \<Rightarrow> SignupRequest
    \<Rightarrow> uuid \<Rightarrow> Database \<Rightarrow> (error + UserResponse) \<times> Database" where
  "create_user upper hash_password user_uuid4 signup_data tid db =
     (case UserRole_named (upper (sr_role signup_data)) of
        None \<Rightarrow> (Inl (KeyError (upper (sr_role signup_data))), db)
      | Some r \<Rightarrow>
          (let new_user =
                 \<lparr>user_id = user_uuid4, user_tenant_id = tid,
                  user_email = sr_email signup_data,
                  user_password_hash = hash_password (sr_password signup_data),
                  user_full_name = sr_full_name signup_data,
                  user_phone = sr_phone signup_data, user_bio = None,
                  user_role = r, user_is_active = True\<rparr>
           in (Inr \<lparr>ur_id = user_id new_user, ur_email = user_email new_user,
                     ur_full_name = user_full_name new_user, ur_role = user_role new_user,
                     ur_tenant_id = user_tenant_id new_user\<rparr>,
               db\<lparr>users := users db @ [new_user]\<rparr>)))"

definition signup :: "(string \<Rightarrow> string) \<Rightarrow> (string \<Rightarrow> string) \<Rightarrow> (string \<Rightarrow> uuid option)
    \<Rightarrow> uuid \<Rightarrow> uuid \<Rightarrow> SignupRequest \<Rightarrow> Database \<Rightarrow> (error + UserResponse) \<times> Database" where
  "signup upper hash_password uuid_UUID tenant_uuid4 user_uuid4 signup_data db =
     (case find (\<lambda>u. user_email u = sr_email signup_data) (users db) of
        Some existing_user \<Rightarrow>
          (Inl (HTTPException HTTP_400_BAD_REQUEST ''Email already registered''), db)
      | None \<Rightarrow>
          if upper (sr_role signup_data) \<notin> set valid_roles
          then (Inl (HTTPException HTTP_400_BAD_REQUEST
                       ''Invalid role. Must be one of: ADMIN, FACULTY, STUDENT''), db)
          else
            (case SignupRequest_tenant_id signup_data of
               Inl exn \<Rightarrow> (Inl exn, db)
             | Inr given \<Rightarrow>
                 (if given \<noteq> None \<and> given \<noteq> Some []
                  then (case uuid_UUID (the given) of
                          None \<Rightarrow> (Inl (ValueError ''badly formed hexadecimal UUID string''), db)
                        | Some tid \<Rightarrow>
                            create_user upper hash_password user_uuid4 signup_data tid db)
                  else (case first_or_default_tenant tenant_uuid4 db of
                          (tid, db1) \<Rightarrow>
                            create_user upper hash_password user_uuid4 signup_data tid db1))))"

definition login :: "(string \<Rightarrow> string \<Rightarrow> bool) \<Rightarrow> (uuid \<Rightarrow> string) \<Rightarrow> LoginRequest \<Rightarrow> Database
    \<Rightarrow> error + TokenResponse" where
  "login verify_password create_token login_data db =
     (case find (\<lambda>u. user_email u = lr_email login_data) (users db) of
        None \<Rightarrow> Inl (HTTPException HTTP_401_UNAUTHORIZED ''Email or password is incorrect'')
      | Some user \<Rightarrow>
          if \<not> verify_password (lr_password login_data) (user_password_hash user)
          then Inl (HTTPException HTTP_401_UNAUTHORIZED ''Email or password is incorrect'')
          else if \<not> user_is_active user
          then Inl (HTTPException HTTP_403_FORBIDDEN ''Your account is disabled'')
          else Inr \<lparr>access_token = create_token (user_id user), token_type = ''bearer''\<rparr>)"

section \<open>Tenant views\<close>

text \<open>
  The database as it would be if no course, enrollment, module or lesson row of another
  tenant existed: the four tenant-scoped tables the handlers read, each restricted to the
  rows of tenant \<open>t\<close>. An operation that gives the same answer on this database and on
  the full one neither returns nor depends on a row of another tenant.
\<close>

definition hide_other_tenants :: "uuid \<Rightarrow> Database \<Rightarrow> Database" where
  "hide_other_tenants t db =
     db\<lparr>courses := filter (\<lambda>c. course_tenant_id c = t) (courses db),
        course_enrollments := filter (\<lambda>e. ce_tenant_id e = t) (course_enrollments db),
        modules := filter (\<lambda>m. module_tenant_id m = t) (modules db),
        content_items := filter (\<lambda>l. ci_tenant_id l = t) (content_items db)\<rparr>"

text \<open>
  The enrollment rows of a requester point at courses of the requester's tenant. The schema
  does not enforce this: \<open>course_enrollments\<close> has a foreign key to \<open>courses\<close> and one to
  \<open>tenants\<close>, and nothing ties the two.
\<close>

definition own_enrollments_in_tenant :: "User \<Rightarrow> Database \<Rightarrow> bool" where
  "own_enrollments_in_tenant u db \<longleftrightarrow>
     (\<forall>e\<in>set (course_enrollments db).
        ce_student_id e = user_id u \<and> ce_tenant_id e = user_tenant_id u \<longrightarrow>
        (\<forall>c\<in>set (courses db).
           course_id c = ce_course_id e \<longrightarrow> course_tenant_id c = user_tenant_id u))"

section \<open>The progress invariant\<close>

text \<open>
  At most one \<open>LessonProgress\<close> row per (student, content item): the pairs of the rows of
  the table are pairwise distinct. The schema declares no such constraint.
\<close>

definition progress_key :: "LessonProgress \<Rightarrow> uuid \<times> uuid" where
  "progress_key p = (lp_student_id p, lp_content_item_id p)"

definition unique_progress :: "Database \<Rightarrow> bool" where
  "unique_progress db \<longleftrightarrow> distinct (map progress_key (lesson_progress db))"

section \<open>Example data\<close>

text \<open>
  One college (tenant 1) with two students, of whom only the first is enrolled; an active
  course with one module and one lesson, and a retired course the first student is still
  enrolled in. Tenant 2 owns one course of its own.
\<close>

definition rahul :: User where
  "rahul = \<lparr>user_id = 44, user_tenant_id = 1, user_email = ''rahul@apollo.edu'',
            user_password_hash = ''hash:password'', user_full_name = ''Rahul Sharma'',
            user_phone = None, user_bio = None, user_role = STUDENT, user_is_active = True\<rparr>"

definition priya :: User where
  "priya = \<lparr>user_id = 55, user_tenant_id = 1, user_email = ''priya@apollo.edu'',
            user_password_hash = ''hash:secret'', user_full_name = ''Priya Nair'',
            user_phone = None, user_bio = None, user_role = STUDENT, user_is_active = True\<rparr>"

definition anatomy :: Course where
  "anatomy = \<lparr>course_id = 100, course_tenant_id = 1, course_dept_id = None,
              course_title = ''Human Anatomy'', course_code = Some ''ANAT101'',
              course_description = Some ''Semester 1'', course_faculty_name = Some ''Dr. House'',
              course_is_active = True\<rparr>"

definition retired_course :: Course where
  "retired_course = \<lparr>course_id = 102, course_tenant_id = 1, course_dept_id = None,
              course_title = ''Histology'', course_code = None,
              course_description = None, course_faculty_name = None,
              course_is_active = False\<rparr>"

definition foreign_course :: Course where
  "foreign_course = \<lparr>course_id = 101, course_tenant_id = 2, course_dept_id = None,
              course_title = ''Pathology'', course_code = Some ''PATH201'',
              course_description = Some ''Other college'', course_faculty_name = None,
              course_is_active = True\<rparr>"

definition anatomy_module :: Module where
  "anatomy_module = \<lparr>module_id = 200, module_tenant_id = 1, module_course_id = 100,
              module_title = ''Upper limb'', module_sequence_order = 1\<rparr>"

definition anatomy_lesson :: ContentItem where
  "anatomy_lesson = \<lparr>ci_id = 300, ci_tenant_id = 1, ci_module_id = 200,
              ci_title = ''Brachial plexus'', ci_type = TEXT, ci_file_url = None,
              ci_text_content = Some ''Roots, trunks, divisions, cords, branches'',
              ci_duration_minutes = None, ci_sequence_order = 1\<rparr>"

definition demo_db :: Database where
  "demo_db =
     \<lparr>tenants = [\<lparr>tenant_id = 1, tenant_name = ''Apollo Medical College'',
                  tenant_domain = Some ''apollo.medlms.com'', tenant_is_active = True\<rparr>,
                 \<lparr>tenant_id = 2, tenant_name = ''City Medical College'',
                  tenant_domain = Some ''city.medlms.com'', tenant_is_active = True\<rparr>],
      users = [rahul, priya],
      courses = [anatomy, retired_course, foreign_course],
      course_enrollments =
        [\<lparr>ce_id = 400, ce_course_id = 100, ce_student_id = 44, ce_tenant_id = 1\<rparr>,
         \<lparr>ce_id = 401, ce_course_id = 102, ce_student_id = 44, ce_tenant_id = 1\<rparr>],
      modules = [anatomy_module],
      content_items = [anatomy_lesson],
      lesson_progress = []\<rparr>"

text \<open>A database with no enrollment and no lesson at all.\<close>

definition bare_db :: Database where
  "bare_db = demo_db\<lparr>course_enrollments := [], content_items := []\<rparr>"

definition demo_verify_password :: "string \<Rightarrow> string \<Rightarrow> bool" where
  "demo_verify_password password password_hash \<longleftrightarrow> password_hash = ''hash:'' @ password"

definition demo_signup :: SignupRequest where
  "demo_signup = \<lparr>sr_email = ''asha@apollo.edu'', sr_password = ''pw'',
                  sr_full_name = ''Asha Rao'', sr_phone = None, sr_role = ''student''\<rparr>"

text \<open>
  Progress rows: the second student has an open row for the lesson; the first student
  completes the lesson at time 1000 and again at time 2000.
\<close>

definition first_completion :: LessonProgress where
  "first_completion = \<lparr>lp_id = 500, lp_student_id = 44, lp_content_item_id = 300,
                        lp_is_completed = True, lp_completed_at = Some 1000\<rparr>"

definition other_progress :: LessonProgress where
  "other_progress = \<lparr>lp_id = 499, lp_student_id = 55, lp_content_item_id = 300,
                        lp_is_completed = False, lp_completed_at = None\<rparr>"

definition completed_db :: Database where
  "completed_db = demo_db\<lparr>lesson_progress := [other_progress, first_completion]\<rparr>"

definition recompleted_db :: Database where
  "recompleted_db =
     demo_db\<lparr>lesson_progress := [other_progress, first_completion\<lparr>lp_completed_at := Some 2000\<rparr>]\<rparr>"

definition started_db :: Database where
  "started_db = demo_db\<lparr>lesson_progress := [other_progress]\<rparr>"

text \<open>The first student with one more enrollment row, of tenant 1, for the course of tenant 2.\<close>

definition cross_db :: Database where
  "cross_db = demo_db\<lparr>course_enrollments := course_enrollments demo_db @
      [\<lparr>ce_id = 402, ce_course_id = 101, ce_student_id = 44, ce_tenant_id = 1\<rparr>]\<rparr>"

lemmas progress_defs =
  first_completion_def other_progress_def completed_db_def recompleted_db_def started_db_def

definition unknown_login :: LoginRequest where
  "unknown_login = \<lparr>lr_email = ''nobody@apollo.edu'', lr_password = ''password''\<rparr>"

definition wrong_password_login :: LoginRequest where
  "wrong_password_login = \<lparr>lr_email = ''rahul@apollo.edu'', lr_password = ''wrong''\<rparr>"

lemmas demo_defs =
  cross_db_def unknown_login_def wrong_password_login_def rahul_def priya_def anatomy_def retired_course_def foreign_course_def anatomy_module_def
  anatomy_lesson_def demo_db_def bare_db_def demo_verify_password_def demo_signup_def

section \<open>Lookup lemmas\<close>

lemma find_None_set: "find P xs = None \<longleftrightarrow> \<not> (\<exists>x\<in>set xs. P x)"
  by (auto simp: find_None_iff)

lemma find_Some_set: "find P xs = Some x \<Longrightarrow> x \<in> set xs \<and> P x"
  by (auto simp: find_Some_iff)

lemma find_exists: "\<exists>x\<in>set xs. P x \<Longrightarrow> \<exists>y. find P xs = Some y"
  by (cases "find P xs") (auto simp: find_None_iff)

section \<open>Lesson detail: order of the checks\<close>

text \<open>
  C3 (as the code has it). In \<open>get_lesson_content\<close> the existence check comes first: a lesson
  id with no row in the requester's tenant yields 404 ``Lesson not found'', whether or not
  the requester is enrolled anywhere. 403 is answered only when the lesson exists in the
  requester's tenant, its module is found, and no enrollment row links the requester to the
  module's course.
\<close>

theorem get_lesson_existence_first:
  "(\<not> (\<exists>l\<in>set (content_items db). ci_id l = lid \<and> ci_tenant_id l = user_tenant_id u)
      \<longrightarrow> get_lesson_content lid u db = Inl (HTTPException 404 ''Lesson not found''))
   \<and> (\<forall>d. get_lesson_content lid u db = Inl (HTTPException 403 d)
      \<longrightarrow> (\<exists>l\<in>set (content_items db). \<exists>m\<in>set (modules db).
             ci_id l = lid \<and> ci_tenant_id l = user_tenant_id u \<and> module_id m = ci_module_id l
             \<and> \<not> (\<exists>e\<in>set (course_enrollments db). enrollment_for (module_course_id m) u e)))"
proof (intro conjI impI allI)
  assume "\<not> (\<exists>l\<in>set (content_items db). ci_id l = lid \<and> ci_tenant_id l = user_tenant_id u)"
  then have "find (\<lambda>l. ci_id l = lid \<and> ci_tenant_id l = user_tenant_id u) (content_items db) = None"
    by (simp add: find_None_iff)
  then show "get_lesson_content lid u db = Inl (HTTPException 404 ''Lesson not found'')"
    by (simp add: get_lesson_content_def)
next
  fix d
  assume a: "get_lesson_content lid u db = Inl (HTTPException 403 d)"
  then obtain l m
    where l: "find (\<lambda>l. ci_id l = lid \<and> ci_tenant_id l = user_tenant_id u) (content_items db)
              = Some l"
      and m: "find (\<lambda>m. module_id m = ci_module_id l) (modules db) = Some m"
      and e: "find (enrollment_for (module_course_id m) u) (course_enrollments db) = None"
    by (auto simp: get_lesson_content_def split: option.splits)
  from find_Some_set[OF l] find_Some_set[OF m] e
  show "\<exists>l\<in>set (content_items db). \<exists>m\<in>set (modules db).
             ci_id l = lid \<and> ci_tenant_id l = user_tenant_id u \<and> module_id m = ci_module_id l
             \<and> \<not> (\<exists>e\<in>set (course_enrollments db). enrollment_for (module_course_id m) u e)"
    by (auto simp: find_None_iff)
qed

text \<open>
  The second student is enrolled nowhere: a lesson id that does not exist gives 404, the
  existing lesson gives 403.
\<close>

theorem get_lesson_existence_first_witness:
  "get_lesson_content 999 priya demo_db = Inl (HTTPException 404 ''Lesson not found'')
   \<and> get_lesson_content 300 priya demo_db
       = Inl (HTTPException 403 ''You are not enrolled in this course'')
   \<and> (\<exists>l\<in>set (content_items demo_db). \<exists>m\<in>set (modules demo_db).
         ci_id l = 300 \<and> ci_tenant_id l = user_tenant_id priya \<and> module_id m = ci_module_id l
         \<and> \<not> (\<exists>e\<in>set (course_enrollments demo_db). enrollment_for (module_course_id m) priya e))"
proof -
  have nf: "\<not> (\<exists>l\<in>set (content_items demo_db). ci_id l = 999
               \<and> ci_tenant_id l = user_tenant_id priya)"
    by (simp add: demo_defs)
  have fb: "get_lesson_content 300 priya demo_db
            = Inl (HTTPException 403 ''You are not enrolled in this course'')"
    by (simp add: get_lesson_content_def enrollment_for_def demo_defs)
  from get_lesson_existence_first[of demo_db 999 priya] nf
  have "get_lesson_content 999 priya demo_db = Inl (HTTPException 404 ''Lesson not found'')"
    by blast
  moreover from get_lesson_existence_first[of demo_db 300 priya] fb
  have "\<exists>l\<in>set (content_items demo_db). \<exists>m\<in>set (modules demo_db).
         ci_id l = 300 \<and> ci_tenant_id l = user_tenant_id priya \<and> module_id m = ci_module_id l
         \<and> \<not> (\<exists>e\<in>set (course_enrollments demo_db). enrollment_for (module_course_id m) priya e)"
    by blast
  ultimately show ?thesis using fb by blast
qed

text \<open>
  The claim as written (a user enrolled in no course who asks for a lesson id that does
  not exist gets Forbidden) fails: with no enrollment row and no lesson row in the
  database the answer is 404.
\<close>

theorem get_lesson_forbidden_counterexample:
  "course_enrollments bare_db = [] \<and> content_items bare_db = []
   \<and> get_lesson_content 999 priya bare_db = Inl (HTTPException 404 ''Lesson not found'')
   \<and> get_lesson_content 999 priya bare_db
       \<noteq> Inl (HTTPException 403 ''You are not enrolled in this course'')"
  by (simp add: get_lesson_content_def demo_defs)

section \<open>Course detail: order of the checks\<close>

text \<open>
  C5. In \<open>get_course_detail\<close> the enrollment check comes first: a requester with no
  enrollment row for the course id (in their tenant) gets 403 Forbidden, also when no course
  has that id. Only for an enrolled requester is the course looked up, by id and
  \<open>is_active\<close>: 404 NotFound when no active course has the id, the course detail otherwise.
\<close>

theorem get_course_enrollment_first:
  "(\<not> (\<exists>e\<in>set (course_enrollments db). enrollment_for cid u e)
      \<longrightarrow> get_course_detail cid u db
          = Inl (HTTPException 403 ''You are not enrolled in this course''))
   \<and> ((\<exists>e\<in>set (course_enrollments db). enrollment_for cid u e)
      \<longrightarrow> (\<not> (\<exists>c\<in>set (courses db). course_id c = cid \<and> course_is_active c)
            \<longrightarrow> get_course_detail cid u db = Inl (HTTPException 404 ''Course not found''))
        \<and> ((\<exists>c\<in>set (courses db). course_id c = cid \<and> course_is_active c)
            \<longrightarrow> (\<exists>c\<in>set (courses db). course_id c = cid \<and> course_is_active c
                  \<and> get_course_detail cid u db = Inr (CourseDetail_of c))))"
proof (intro conjI impI)
  assume "\<not> (\<exists>e\<in>set (course_enrollments db). enrollment_for cid u e)"
  then have "find (enrollment_for cid u) (course_enrollments db) = None"
    by (simp add: find_None_iff)
  then show "get_course_detail cid u db
             = Inl (HTTPException 403 ''You are not enrolled in this course'')"
    by (simp add: get_course_detail_def)
next
  assume en: "\<exists>e\<in>set (course_enrollments db). enrollment_for cid u e"
    and "\<not> (\<exists>c\<in>set (courses db). course_id c = cid \<and> course_is_active c)"
  then have "find (\<lambda>c. course_id c = cid \<and> course_is_active c) (courses db) = None"
    by (simp add: find_None_iff)
  moreover from find_exists[OF en]
  obtain e where "find (enrollment_for cid u) (course_enrollments db) = Some e" ..
  ultimately show "get_course_detail cid u db = Inl (HTTPException 404 ''Course not found'')"
    by (simp add: get_course_detail_def)
next
  assume en: "\<exists>e\<in>set (course_enrollments db). enrollment_for cid u e"
    and ex: "\<exists>c\<in>set (courses db). course_id c = cid \<and> course_is_active c"
  from find_exists[OF en]
  obtain e where e: "find (enrollment_for cid u) (course_enrollments db) = Some e" ..
  from find_exists[OF ex]
  obtain c where c: "find (\<lambda>c. course_id c = cid \<and> course_is_active c) (courses db) = Some c" ..
  from find_Some_set[OF c] e c
  show "\<exists>c\<in>set (courses db). course_id c = cid \<and> course_is_active c
                  \<and> get_course_detail cid u db = Inr (CourseDetail_of c)"
    by (auto simp: get_course_detail_def)
qed

text \<open>
  The three branches on the example data: an unenrolled student and an id no course has,
  the enrolled student and the retired course, the enrolled student and the active course.
\<close>

theorem get_course_enrollment_first_witness:
  "get_course_detail 999 priya demo_db
     = Inl (HTTPException 403 ''You are not enrolled in this course'')
   \<and> get_course_detail 102 rahul demo_db = Inl (HTTPException 404 ''Course not found'')
   \<and> (\<exists>c\<in>set (courses demo_db). course_id c = 100 \<and> course_is_active c
         \<and> get_course_detail 100 rahul demo_db = Inr (CourseDetail_of c))"
proof -
  have a: "\<not> (\<exists>e\<in>set (course_enrollments demo_db). enrollment_for 999 priya e)"
    by (simp add: enrollment_for_def demo_defs)
  have b: "\<exists>e\<in>set (course_enrollments demo_db). enrollment_for 102 rahul e"
    by (simp add: enrollment_for_def demo_defs)
  have b': "\<not> (\<exists>c\<in>set (courses demo_db). course_id c = 102 \<and> course_is_active c)"
    by (simp add: demo_defs)
  have c: "\<exists>e\<in>set (course_enrollments demo_db). enrollment_for 100 rahul e"
    by (simp add: enrollment_for_def demo_defs)
  have c': "\<exists>c\<in>set (courses demo_db). course_id c = 100 \<and> course_is_active c"
    by (simp add: demo_defs)
  from get_course_enrollment_first[of demo_db 999 priya] a
  have "get_course_detail 999 priya demo_db
     = Inl (HTTPException 403 ''You are not enrolled in this course'')" by blast
  moreover from get_course_enrollment_first[of demo_db 102 rahul] b b'
  have "get_course_detail 102 rahul demo_db = Inl (HTTPException 404 ''Course not found'')"
    by blast
  moreover from get_course_enrollment_first[of demo_db 100 rahul] c c'
  have "\<exists>c\<in>set (courses demo_db). course_id c = 100 \<and> course_is_active c
         \<and> get_course_detail 100 rahul demo_db = Inr (CourseDetail_of c)" by blast
  ultimately show ?thesis by blast
qed

section \<open>Login\<close>

text \<open>
  C8. A login with an unregistered email and a login with a registered email and a wrong
  password have the same result: \<open>HTTPException\<close> with status 401 and the detail
  ``Email or password is incorrect''. This holds for every password verifier and every
  token generator.
\<close>

theorem login_failures_identical:
  assumes "\<not> (\<exists>u\<in>set (users db). user_email u = lr_email d1)"
    and "find (\<lambda>u. user_email u = lr_email d2) (users db) = Some user"
    and "\<not> verify_password (lr_password d2) (user_password_hash user)"
  shows "login verify_password create_token d1 db = login verify_password create_token d2 db
       \<and> login verify_password create_token d2 db
           = Inl (HTTPException 401 ''Email or password is incorrect'')"
proof -
  from assms(1) have "find (\<lambda>u. user_email u = lr_email d1) (users db) = None"
    by (simp add: find_None_iff)
  with assms(2,3) show ?thesis by (simp add: login_def)
qed

theorem login_failures_identical_witness:
  "login demo_verify_password (\<lambda>i. ''token'') unknown_login demo_db
     = login demo_verify_password (\<lambda>i. ''token'') wrong_password_login demo_db
   \<and> login demo_verify_password (\<lambda>i. ''token'') wrong_password_login demo_db
     = Inl (HTTPException 401 ''Email or password is incorrect'')"
proof -
  have a: "\<not> (\<exists>u\<in>set (users demo_db). user_email u = lr_email unknown_login)"
    by (simp add: demo_defs)
  have b: "find (\<lambda>u. user_email u = lr_email wrong_password_login) (users demo_db) = Some rahul"
    by (simp add: demo_defs)
  have c: "\<not> demo_verify_password (lr_password wrong_password_login) (user_password_hash rahul)"
    by (simp add: demo_defs)
  from login_failures_identical[where db = demo_db and ?d1.0 = unknown_login
      and ?d2.0 = wrong_password_login and user = rahul
      and verify_password = demo_verify_password and create_token = "\<lambda>i. ''token''", OF a b c]
  show ?thesis .
qed

section \<open>Registration\<close>

text \<open>
  C9. When a user row with the given email exists, in whichever tenant, \<open>signup\<close> fails
  with the duplicate-key error (status 400, detail ``Email already registered'', which is
  how this endpoint surfaces a conflict) and the database is returned unchanged: no user
  and no tenant is created.
\<close>

theorem signup_duplicate_email:
  assumes "\<exists>u\<in>set (users db). user_email u = sr_email signup_data"
  shows "signup upper hash_password uuid_UUID tenant_uuid4 user_uuid4 signup_data db
         = (Inl (HTTPException 400 ''Email already registered''), db)"
proof -
  from find_exists[OF assms]
  obtain x where "find (\<lambda>u. user_email u = sr_email signup_data) (users db) = Some x" ..
  then show ?thesis by (simp add: signup_def)
qed

text \<open>
  The registered address belongs to a user of tenant 1 while the first tenant of the table
  is tenant 2.
\<close>

theorem signup_duplicate_email_witness:
  "(\<exists>u\<in>set (users demo_db). user_tenant_id u = 1
        \<and> user_email u = sr_email (demo_signup\<lparr>sr_email := ''rahul@apollo.edu''\<rparr>))
   \<and> signup str_upper (\<lambda>p. ''hash:'' @ p) (\<lambda>s. None) 7 8
        (demo_signup\<lparr>sr_email := ''rahul@apollo.edu''\<rparr>)
        (demo_db\<lparr>tenants := rev (tenants demo_db)\<rparr>)
      = (Inl (HTTPException 400 ''Email already registered''),
         demo_db\<lparr>tenants := rev (tenants demo_db)\<rparr>)"
proof -
  have a: "\<exists>u\<in>set (users (demo_db\<lparr>tenants := rev (tenants demo_db)\<rparr>)).
             user_email u = sr_email (demo_signup\<lparr>sr_email := ''rahul@apollo.edu''\<rparr>)"
    by (simp add: demo_defs)
  have b: "\<exists>u\<in>set (users demo_db). user_tenant_id u = 1
        \<and> user_email u = sr_email (demo_signup\<lparr>sr_email := ''rahul@apollo.edu''\<rparr>)"
    by (simp add: demo_defs)
  from signup_duplicate_email[OF a] b show ?thesis by blast
qed

text \<open>
  What lines 68-81 do when they are reached: the first tenant of the table is used and
  nothing is written, or, with an empty table, the default tenant is created.
\<close>

lemma first_or_default_tenant_existing:
  "tenants db = t # ts \<Longrightarrow> first_or_default_tenant tenant_uuid4 db = (tenant_id t, db)"
  by (simp add: first_or_default_tenant_def)

lemma first_or_default_tenant_created:
  "tenants db = [] \<Longrightarrow>
   first_or_default_tenant tenant_uuid4 db =
     (tenant_uuid4,
      db\<lparr>tenants := [\<lparr>tenant_id = tenant_uuid4, tenant_name = ''Default Medical College'',
                       tenant_domain = Some ''default.medlms.com'',
                       tenant_is_active = True\<rparr>]\<rparr>)"
  by (simp add: first_or_default_tenant_def)

lemma demo_role_ok: "str_upper (sr_role demo_signup) \<in> set valid_roles"
  unfolding demo_signup_def by code_simp

text \<open>
  C2 (what the code does). Whatever \<open>upper\<close> is, every signup request that passes the
  duplicate-email check and the role check stops at the read of \<open>signup_data.tenant_id\<close> on line 65: the request
  model has no such field, the read raises \<open>AttributeError\<close>, no tenant is looked up or
  created, no user is created, and no user is returned.
\<close>

theorem signup_attribute_error:
  assumes "\<not> (\<exists>u\<in>set (users db). user_email u = sr_email signup_data)"
    and "upper (sr_role signup_data) \<in> set valid_roles"
  shows "signup upper hash_password uuid_UUID tenant_uuid4 user_uuid4 signup_data db
         = (Inl (AttributeError ''SignupRequest object has no attribute tenant_id''), db)"
proof -
  from assms(1) have "find (\<lambda>u. user_email u = sr_email signup_data) (users db) = None"
    by (simp add: find_None_iff)
  with assms(2) show ?thesis by (simp add: signup_def SignupRequest_tenant_id_def)
qed

text \<open>
  A new address with the role ``student'', once with tenants in the table and once with
  none.
\<close>

theorem signup_attribute_error_witness:
  "signup str_upper (\<lambda>p. ''hash:'' @ p) (\<lambda>s. None) 7 8 demo_signup demo_db
     = (Inl (AttributeError ''SignupRequest object has no attribute tenant_id''), demo_db)
   \<and> signup str_upper (\<lambda>p. ''hash:'' @ p) (\<lambda>s. None) 7 8 demo_signup
         (demo_db\<lparr>tenants := []\<rparr>)
     = (Inl (AttributeError ''SignupRequest object has no attribute tenant_id''),
        demo_db\<lparr>tenants := []\<rparr>)"
proof -
  have a: "\<not> (\<exists>u\<in>set (users demo_db). user_email u = sr_email demo_signup)"
    by (simp add: demo_defs)
  have a': "\<not> (\<exists>u\<in>set (users (demo_db\<lparr>tenants := []\<rparr>)). user_email u = sr_email demo_signup)"
    by (simp add: demo_defs)
  from signup_attribute_error[where upper = str_upper, OF a demo_role_ok]
    signup_attribute_error[where upper = str_upper, OF a' demo_role_ok]
  show ?thesis by blast
qed

section \<open>Lesson completion\<close>


lemma update_first_map:
  "(\<And>x. P x \<Longrightarrow> k (f x) = k x) \<Longrightarrow> map k (update_first P f xs) = map k xs"
  by (induction xs) auto

lemma find_update_first:
  "(\<And>x. P x \<Longrightarrow> P (f x)) \<Longrightarrow> find P (update_first P f xs) = map_option f (find P xs)"
  by (induction xs) auto

lemma filter_update_first:
  "(\<And>x. P x \<Longrightarrow> P (f x)) \<Longrightarrow>
   filter (\<lambda>x. \<not> P x) (update_first P f xs) = filter (\<lambda>x. \<not> P x) xs"
  by (induction xs) auto

lemma update_first_nth:
  "find P xs = Some x \<Longrightarrow>
   \<exists>i<length xs. xs ! i = x \<and> update_first P f xs = xs[i := f x]"
proof (induction xs)
  case Nil
  then show ?case by simp
next
  case (Cons y ys)
  show ?case
  proof (cases "P y")
    case True
    with Cons.prems have "y = x" by simp
    with True show ?thesis by (intro exI[of _ 0]) simp
  next
    case False
    with Cons.prems have "find P ys = Some x" by simp
    from Cons.IH[OF this] obtain i where "i < length ys" "ys ! i = x"
      "update_first P f ys = ys[i := f x]" by blast
    with False show ?thesis by (intro exI[of _ "Suc i"]) simp
  qed
qed

lemma find_snoc_new: "find P xs = None \<Longrightarrow> P x \<Longrightarrow> find P (xs @ [x]) = Some x"
  by (induction xs) (auto split: if_splits)

lemma distinct_key_filter_le1:
  "distinct (map k xs) \<Longrightarrow> length (filter (\<lambda>x. k x = v) xs) \<le> 1"
proof (induction xs)
  case Nil
  then show ?case by simp
next
  case (Cons y ys)
  show ?case
  proof (cases "k y = v")
    case True
    with Cons.prems have "\<forall>x\<in>set ys. k x \<noteq> v" by (auto simp: image_iff)
    then have "filter (\<lambda>x. k x = v) ys = []" by (simp add: filter_empty_conv)
    with True show ?thesis by simp
  next
    case False
    with Cons show ?thesis by simp
  qed
qed

lemma progress_for_key: "progress_for u lid p \<longleftrightarrow> progress_key p = (user_id u, lid)"
  by (auto simp: progress_for_def progress_key_def)


lemma mark_lesson_complete_cases:
  assumes "mark_lesson_complete lid u t n db = (r, db')"
  shows "(\<exists>e. r = Inl e \<and> db' = db)
       \<or> (r = Inr \<lparr>cr_message = ''Lesson marked as complete'', cr_lesson_id = lid,
                    cr_completed_at = t\<rparr>
          \<and> db' = db\<lparr>lesson_progress := upsert_progress u lid t n (lesson_progress db)\<rparr>)"
proof (cases "find (\<lambda>l. ci_id l = lid \<and> ci_tenant_id l = user_tenant_id u) (content_items db)")
  case None
  with assms show ?thesis by (auto simp: mark_lesson_complete_def)
next
  case (Some lesson)
  from find_Some_set[OF Some] have "ci_id lesson = lid" by simp
  with assms Some show ?thesis
    by (auto simp: mark_lesson_complete_def split: option.splits)
qed

lemma upsert_progress_find:
  "\<exists>p. find (progress_for u lid) (upsert_progress u lid t n rows) = Some p
       \<and> lp_is_completed p \<and> lp_completed_at p = Some t"
proof (cases "find (progress_for u lid) rows")
  case None
  then show ?thesis
    by (simp add: upsert_progress_def find_snoc_new progress_for_def)
next
  case (Some p)
  have "find (progress_for u lid)
          (update_first (progress_for u lid)
             (\<lambda>p. p\<lparr>lp_is_completed := True, lp_completed_at := Some t\<rparr>) rows)
        = map_option (\<lambda>p. p\<lparr>lp_is_completed := True, lp_completed_at := Some t\<rparr>)
            (find (progress_for u lid) rows)"
    by (rule find_update_first) (simp add: progress_for_def)
  with Some show ?thesis by (simp add: upsert_progress_def)
qed


lemma demo_first_call:
  "mark_lesson_complete 300 rahul 1000 500 started_db =
     (Inr \<lparr>cr_message = ''Lesson marked as complete'', cr_lesson_id = 300,
           cr_completed_at = 1000\<rparr>, completed_db)"
  by (simp add: mark_lesson_complete_def upsert_progress_def enrollment_for_def
      progress_for_def progress_defs demo_defs)

lemma demo_second_call:
  "mark_lesson_complete 300 rahul 2000 501 completed_db =
     (Inr \<lparr>cr_message = ''Lesson marked as complete'', cr_lesson_id = 300,
           cr_completed_at = 2000\<rparr>, recompleted_db)"
  by (simp add: mark_lesson_complete_def upsert_progress_def enrollment_for_def
      progress_for_def progress_defs demo_defs)

lemma demo_refused_call:
  "mark_lesson_complete 300 priya 1000 500 started_db =
     (Inl (HTTPException 403 ''You are not enrolled in this course''), started_db)"
  by (simp add: mark_lesson_complete_def enrollment_for_def progress_defs demo_defs)

lemma upsert_progress_unique:
  assumes "distinct (map progress_key rows)"
  shows "distinct (map progress_key (upsert_progress u lid t n rows))"
proof (cases "find (progress_for u lid) rows")
  case None
  then have "\<forall>p\<in>set rows. progress_key p \<noteq> (user_id u, lid)"
    by (simp add: find_None_iff progress_for_key)
  with assms None show ?thesis
    by (auto simp: upsert_progress_def progress_key_def)
next
  case (Some p)
  have "map progress_key
          (update_first (progress_for u lid)
             (\<lambda>p. p\<lparr>lp_is_completed := True, lp_completed_at := Some t\<rparr>) rows)
        = map progress_key rows"
    by (rule update_first_map) (simp add: progress_key_def)
  with assms Some show ?thesis by (simp add: upsert_progress_def)
qed

lemma upsert_progress_shape:
  "case find (progress_for u lid) rows of
     None \<Rightarrow> upsert_progress u lid t n rows =
               rows @ [\<lparr>lp_id = n, lp_student_id = user_id u, lp_content_item_id = lid,
                        lp_is_completed = True, lp_completed_at = Some t\<rparr>]
   | Some p \<Rightarrow> \<exists>i<length rows. rows ! i = p
               \<and> upsert_progress u lid t n rows =
                   rows[i := p\<lparr>lp_is_completed := True, lp_completed_at := Some t\<rparr>]"
proof (cases "find (progress_for u lid) rows")
  case None
  then show ?thesis by (simp add: upsert_progress_def)
next
  case (Some p)
  from update_first_nth[OF Some,
      of "\<lambda>p. p\<lparr>lp_is_completed := True, lp_completed_at := Some t\<rparr>"] Some
  show ?thesis by (simp add: upsert_progress_def)
qed

lemma unique_progress_one_row:
  assumes "distinct (map progress_key rows)"
  shows "length (filter (progress_for u lid) (upsert_progress u lid t n rows)) = 1"
proof -
  let ?rows' = "upsert_progress u lid t n rows"
  from upsert_progress_unique[OF assms]
  have "length (filter (\<lambda>p. progress_key p = (user_id u, lid)) ?rows') \<le> 1"
    by (rule distinct_key_filter_le1)
  moreover have "progress_for u lid = (\<lambda>p. progress_key p = (user_id u, lid))"
    by (rule ext) (simp add: progress_for_key)
  ultimately have le: "length (filter (progress_for u lid) ?rows') \<le> 1"
    by simp
  from upsert_progress_find[of u lid t n rows]
  obtain p where "find (progress_for u lid) ?rows' = Some p" by blast
  from find_Some_set[OF this] have "filter (progress_for u lid) ?rows' \<noteq> []"
    by (auto simp: filter_empty_conv)
  then have "0 < length (filter (progress_for u lid) ?rows')" by simp
  with le show ?thesis by linarith
qed





text \<open>
  C6. \<open>mark_lesson_complete\<close> preserves ``at most one progress row per (student, content
  item)''. A failed call changes nothing. A successful call leaves exactly one row for the
  pair: when there was none, the new row is appended to the table (created lazily); when
  there was one, that row is overwritten at its position (updated in place) and no row is
  added.
\<close>

theorem complete_lesson_unique_progress:
  assumes "unique_progress db" and "mark_lesson_complete lid u t n db = (r, db')"
  shows "unique_progress db'
       \<and> (\<forall>e. r = Inl e \<longrightarrow> db' = db)
       \<and> (\<forall>resp. r = Inr resp \<longrightarrow>
            length (filter (progress_for u lid) (lesson_progress db')) = 1
            \<and> (case find (progress_for u lid) (lesson_progress db) of
                 None \<Rightarrow>
                   lesson_progress db' =
                     lesson_progress db @
                       [\<lparr>lp_id = n, lp_student_id = user_id u, lp_content_item_id = lid,
                         lp_is_completed = True, lp_completed_at = Some t\<rparr>]
               | Some p \<Rightarrow>
                   \<exists>i<length (lesson_progress db). lesson_progress db ! i = p
                     \<and> lesson_progress db' =
                         (lesson_progress db)
                           [i := p\<lparr>lp_is_completed := True, lp_completed_at := Some t\<rparr>]))"
proof -
  from mark_lesson_complete_cases[OF assms(2)]
  consider (err) e where "r = Inl e" "db' = db"
    | (ok) "r = Inr \<lparr>cr_message = ''Lesson marked as complete'', cr_lesson_id = lid,
                     cr_completed_at = t\<rparr>"
           "db' = db\<lparr>lesson_progress := upsert_progress u lid t n (lesson_progress db)\<rparr>"
    by blast
  then show ?thesis
  proof cases
    case err
    with assms(1) show ?thesis by simp
  next
    case ok
    from assms(1) have d: "distinct (map progress_key (lesson_progress db))"
      by (simp add: unique_progress_def)
    from ok(2) upsert_progress_unique[OF d, of u lid t n]
    have 1: "unique_progress db'" by (simp add: unique_progress_def)
    from ok(2) unique_progress_one_row[OF d, of u lid t n]
    have 2: "length (filter (progress_for u lid) (lesson_progress db')) = 1" by simp
    from ok(2) have lp: "lesson_progress db' = upsert_progress u lid t n (lesson_progress db)"
      by simp
    from upsert_progress_shape[where u = u and lid = lid and rows = "lesson_progress db"
        and t = t and n = n]
    have 3: "case find (progress_for u lid) (lesson_progress db) of
                 None \<Rightarrow>
                   lesson_progress db' =
                     lesson_progress db @
                       [\<lparr>lp_id = n, lp_student_id = user_id u, lp_content_item_id = lid,
                         lp_is_completed = True, lp_completed_at = Some t\<rparr>]
               | Some p \<Rightarrow>
                   \<exists>i<length (lesson_progress db). lesson_progress db ! i = p
                     \<and> lesson_progress db' =
                         (lesson_progress db)
                           [i := p\<lparr>lp_is_completed := True, lp_completed_at := Some t\<rparr>]"
      by (simp only: lp)
    from ok(1) 1 2 3 show ?thesis by simp
  qed
qed

theorem complete_lesson_unique_progress_witness:
  "unique_progress started_db \<and> unique_progress completed_db \<and> unique_progress recompleted_db
   \<and> lesson_progress completed_db = lesson_progress started_db @ [first_completion]
   \<and> length (filter (progress_for rahul 300) (lesson_progress recompleted_db)) = 1
   \<and> mark_lesson_complete 300 priya 1000 500 started_db =
       (Inl (HTTPException 403 ''You are not enrolled in this course''), started_db)"
proof -
  have u0: "unique_progress started_db"
    by (simp add: unique_progress_def progress_key_def progress_defs demo_defs)
  have n0: "find (progress_for rahul 300) (lesson_progress started_db) = None"
    by (simp add: progress_for_def progress_defs demo_defs)
  from complete_lesson_unique_progress[OF u0 demo_first_call] n0
  have u1: "unique_progress completed_db"
    and a1: "lesson_progress completed_db = lesson_progress started_db @
       [\<lparr>lp_id = 500, lp_student_id = user_id rahul, lp_content_item_id = 300,
         lp_is_completed = True, lp_completed_at = Some 1000\<rparr>]"
    by simp_all
  from complete_lesson_unique_progress[OF u1 demo_second_call]
  have u2: "unique_progress recompleted_db"
    and c2: "length (filter (progress_for rahul 300) (lesson_progress recompleted_db)) = 1"
    by simp_all
  from a1 have "lesson_progress completed_db = lesson_progress started_db @ [first_completion]"
    by (simp add: first_completion_def rahul_def)
  with u0 u1 u2 c2 complete_lesson_unique_progress[OF u0 demo_refused_call] demo_refused_call
  show ?thesis by blast
qed

text \<open>
  C10. A successful \<open>mark_lesson_complete\<close> leaves the tenant, user, course, enrollment,
  module and content tables as they were, leaves every progress row of another (student,
  lesson) pair as it was, and either appends one row for the pair or replaces one row of
  the pair, at its position and with its id, by a row of the same pair.
\<close>

theorem complete_lesson_frame:
  assumes "mark_lesson_complete lid u t n db = (Inr resp, db')"
  shows "tenants db' = tenants db \<and> users db' = users db \<and> courses db' = courses db
       \<and> course_enrollments db' = course_enrollments db \<and> modules db' = modules db
       \<and> content_items db' = content_items db
       \<and> filter (\<lambda>p. \<not> progress_for u lid p) (lesson_progress db')
           = filter (\<lambda>p. \<not> progress_for u lid p) (lesson_progress db)
       \<and> ((\<exists>new. progress_for u lid new \<and> lesson_progress db' = lesson_progress db @ [new])
          \<or> (\<exists>i<length (lesson_progress db). \<exists>new.
                progress_for u lid (lesson_progress db ! i) \<and> progress_for u lid new
                \<and> lp_id new = lp_id (lesson_progress db ! i)
                \<and> lesson_progress db' = (lesson_progress db)[i := new]))"
proof -
  let ?rows = "lesson_progress db"
  let ?f = "\<lambda>p. p\<lparr>lp_is_completed := True, lp_completed_at := Some t\<rparr>"
  from mark_lesson_complete_cases[OF assms]
  have db': "db' = db\<lparr>lesson_progress := upsert_progress u lid t n ?rows\<rparr>" by auto
  have others: "filter (\<lambda>p. \<not> progress_for u lid p) (upsert_progress u lid t n ?rows)
                = filter (\<lambda>p. \<not> progress_for u lid p) ?rows"
  proof (cases "find (progress_for u lid) ?rows")
    case None
    then show ?thesis by (simp add: upsert_progress_def progress_for_def)
  next
    case (Some p)
    have "filter (\<lambda>p. \<not> progress_for u lid p) (update_first (progress_for u lid) ?f ?rows)
          = filter (\<lambda>p. \<not> progress_for u lid p) ?rows"
      by (rule filter_update_first) (simp add: progress_for_def)
    with Some show ?thesis by (simp add: upsert_progress_def)
  qed
  have shape: "(\<exists>new. progress_for u lid new \<and> upsert_progress u lid t n ?rows = ?rows @ [new])
          \<or> (\<exists>i<length ?rows. \<exists>new.
                progress_for u lid (?rows ! i) \<and> progress_for u lid new
                \<and> lp_id new = lp_id (?rows ! i)
                \<and> upsert_progress u lid t n ?rows = ?rows[i := new])"
  proof (cases "find (progress_for u lid) ?rows")
    case None
    then have "progress_for u lid \<lparr>lp_id = n, lp_student_id = user_id u,
                 lp_content_item_id = lid, lp_is_completed = True, lp_completed_at = Some t\<rparr>
             \<and> upsert_progress u lid t n ?rows = ?rows @ [\<lparr>lp_id = n, lp_student_id = user_id u,
                 lp_content_item_id = lid, lp_is_completed = True, lp_completed_at = Some t\<rparr>]"
      by (simp add: upsert_progress_def progress_for_def)
    then show ?thesis by blast
  next
    case (Some p)
    from find_Some_set[OF Some] have p: "progress_for u lid p" by simp
    from update_first_nth[OF Some, of ?f] obtain i where i: "i < length ?rows" "?rows ! i = p"
      "update_first (progress_for u lid) ?f ?rows = ?rows[i := ?f p]" by blast
    from p have "progress_for u lid (?f p)" "lp_id (?f p) = lp_id p"
      by (simp_all add: progress_for_def)
    with i p Some have "i < length ?rows \<and> progress_for u lid (?rows ! i)
        \<and> progress_for u lid (?f p) \<and> lp_id (?f p) = lp_id (?rows ! i)
        \<and> upsert_progress u lid t n ?rows = ?rows[i := ?f p]"
      by (simp add: upsert_progress_def)
    then show ?thesis by blast
  qed
  from db' others shape show ?thesis by simp
qed

theorem complete_lesson_frame_witness:
  "courses recompleted_db = courses completed_db
   \<and> course_enrollments recompleted_db = course_enrollments completed_db
   \<and> filter (\<lambda>p. \<not> progress_for rahul 300 p) (lesson_progress recompleted_db)
       = filter (\<lambda>p. \<not> progress_for rahul 300 p) (lesson_progress completed_db)
   \<and> filter (\<lambda>p. \<not> progress_for rahul 300 p) (lesson_progress completed_db) = [other_progress]"
proof -
  have "filter (\<lambda>p. \<not> progress_for rahul 300 p) (lesson_progress completed_db) = [other_progress]"
    by (simp add: progress_for_def progress_defs demo_defs)
  with complete_lesson_frame[OF demo_second_call] show ?thesis by blast
qed

section \<open>Course listing\<close>






section \<open>Tenant isolation\<close>

lemma find_filter_same:
  "(\<And>x. x \<in> set xs \<Longrightarrow> P x \<Longrightarrow> Q x) \<Longrightarrow> find P (filter Q xs) = find P xs"
  by (induction xs) auto

lemma hide_enrollment_find:
  "find (enrollment_for cid u)
     (course_enrollments (hide_other_tenants (user_tenant_id u) db))
   = find (enrollment_for cid u) (course_enrollments db)"
proof -
  have "find (enrollment_for cid u)
          (filter (\<lambda>e. ce_tenant_id e = user_tenant_id u) (course_enrollments db))
        = find (enrollment_for cid u) (course_enrollments db)"
    by (rule find_filter_same) (simp add: enrollment_for_def)
  then show ?thesis by (simp add: hide_other_tenants_def)
qed

lemma hide_progress:
  "lesson_progress (hide_other_tenants t db) = lesson_progress db"
  by (simp add: hide_other_tenants_def)

lemma hide_LessonBasic_of:
  "LessonBasic_of u (hide_other_tenants t db) = LessonBasic_of u db"
  by (rule ext) (simp add: LessonBasic_of_def is_completed_flag_def hide_progress)

text \<open>
  The module and lesson queries carry the tenant filter (courses.py lines 146-149,
  content.py lines 57-60 and 82-85). In every database and for every sort, the two listings
  answer as if no course, enrollment, module or lesson row of another tenant existed.
\<close>

lemma hide_get_course_modules:
  "get_course_modules order_by cid u (hide_other_tenants (user_tenant_id u) db)
   = get_course_modules order_by cid u db"
proof -
  have "filter (\<lambda>m. module_course_id m = cid \<and> module_tenant_id m = user_tenant_id u)
          (modules (hide_other_tenants (user_tenant_id u) db))
        = filter (\<lambda>m. module_course_id m = cid \<and> module_tenant_id m = user_tenant_id u)
          (modules db)"
    by (simp add: hide_other_tenants_def conj_commute cong: conj_cong)
  then show ?thesis
    by (simp add: get_course_modules_def hide_enrollment_find cong: option.case_cong)
qed

lemma hide_get_module_lessons:
  "get_module_lessons order_by mid u (hide_other_tenants (user_tenant_id u) db)
   = get_module_lessons order_by mid u db"
proof -
  have m: "find (\<lambda>m. module_id m = mid \<and> module_tenant_id m = user_tenant_id u)
             (modules (hide_other_tenants (user_tenant_id u) db))
         = find (\<lambda>m. module_id m = mid \<and> module_tenant_id m = user_tenant_id u) (modules db)"
    unfolding hide_other_tenants_def by (simp, rule find_filter_same) simp
  have l: "filter (\<lambda>l. ci_module_id l = mid \<and> ci_tenant_id l = user_tenant_id u)
             (content_items (hide_other_tenants (user_tenant_id u) db))
         = filter (\<lambda>l. ci_module_id l = mid \<and> ci_tenant_id l = user_tenant_id u)
             (content_items db)"
    by (simp add: hide_other_tenants_def conj_commute cong: conj_cong)
  show ?thesis
    by (simp add: get_module_lessons_def m l hide_enrollment_find hide_LessonBasic_of
        cong: option.case_cong)
qed

text \<open>
  The lesson query of \<open>get_lesson_content\<close> carries the filter too (content.py lines
  119-122): in every database the detail returned is that of a lesson row of the
  requester's tenant, and a lesson id that only other tenants use is answered like an id
  that nobody uses.
\<close>

lemma get_lesson_content_own_tenant:
  assumes "get_lesson_content lid u db = Inr d"
  shows "\<exists>l\<in>set (content_items db).
           ci_id l = lid \<and> ci_tenant_id l = user_tenant_id u \<and> d = LessonDetail_of u db l"
proof -
  from assms obtain l
    where l: "find (\<lambda>l. ci_id l = lid \<and> ci_tenant_id l = user_tenant_id u) (content_items db)
              = Some l"
      and d: "d = LessonDetail_of u db l"
    by (auto simp: get_lesson_content_def split: option.splits)
  from find_Some_set[OF l] d show ?thesis by blast
qed

lemma get_lesson_content_other_tenant:
  assumes "\<forall>l\<in>set (content_items db). ci_id l = lid \<longrightarrow> ci_tenant_id l \<noteq> user_tenant_id u"
  shows "get_lesson_content lid u db = Inl (HTTPException 404 ''Lesson not found'')"
proof -
  from assms
  have "find (\<lambda>l. ci_id l = lid \<and> ci_tenant_id l = user_tenant_id u) (content_items db) = None"
    by (auto simp: find_None_iff)
  then show ?thesis by (simp add: get_lesson_content_def)
qed

text \<open>
  The course queries have no tenant filter (courses.py lines 62-65 and 102-105). The
  course listing and the course detail answer as if no row of another tenant existed in
  the databases in which the requester's own enrollment rows point at courses of the
  requester's tenant.
\<close>

lemma hide_my_courses_loop:
  assumes "\<And>e c. e \<in> set es \<Longrightarrow> c \<in> set (courses db) \<Longrightarrow> course_id c = ce_course_id e
             \<Longrightarrow> course_tenant_id c = t"
  shows "my_courses_loop (hide_other_tenants t db) es = my_courses_loop db es"
  using assms
proof (induction es)
  case Nil
  then show ?case by simp
next
  case (Cons e es)
  have "find (\<lambda>c. course_id c = ce_course_id e \<and> course_is_active c)
          (filter (\<lambda>c. course_tenant_id c = t) (courses db))
        = find (\<lambda>c. course_id c = ce_course_id e \<and> course_is_active c) (courses db)"
  proof (rule find_filter_same)
    fix c
    assume "c \<in> set (courses db)" "course_id c = ce_course_id e \<and> course_is_active c"
    with Cons.prems[of e c] show "course_tenant_id c = t" by simp
  qed
  then have "find (\<lambda>c. course_id c = ce_course_id e \<and> course_is_active c)
          (courses (hide_other_tenants t db))
        = find (\<lambda>c. course_id c = ce_course_id e \<and> course_is_active c) (courses db)"
    by (simp add: hide_other_tenants_def)
  moreover have "my_courses_loop (hide_other_tenants t db) es = my_courses_loop db es"
  proof (rule Cons.IH)
    fix e' c
    assume "e' \<in> set es" "c \<in> set (courses db)" "course_id c = ce_course_id e'"
    with Cons.prems[of e' c] show "course_tenant_id c = t" by simp
  qed
  ultimately show ?case by (simp cong: option.case_cong)
qed

lemma hide_get_my_courses:
  assumes "own_enrollments_in_tenant u db"
  shows "get_my_courses u (hide_other_tenants (user_tenant_id u) db) = get_my_courses u db"
proof -
  let ?mine = "\<lambda>e. ce_student_id e = user_id u \<and> ce_tenant_id e = user_tenant_id u"
  have e: "filter ?mine (course_enrollments (hide_other_tenants (user_tenant_id u) db))
         = filter ?mine (course_enrollments db)"
    by (simp add: hide_other_tenants_def conj_commute cong: conj_cong)
  have "my_courses_loop (hide_other_tenants (user_tenant_id u) db)
          (filter ?mine (course_enrollments db))
        = my_courses_loop db (filter ?mine (course_enrollments db))"
  proof (rule hide_my_courses_loop)
    fix e c
    assume "e \<in> set (filter ?mine (course_enrollments db))" "c \<in> set (courses db)"
      "course_id c = ce_course_id e"
    with assms show "course_tenant_id c = user_tenant_id u"
      by (auto simp: own_enrollments_in_tenant_def)
  qed
  with e show ?thesis by (simp add: get_my_courses_def)
qed

lemma hide_get_course_detail:
  assumes "own_enrollments_in_tenant u db"
  shows "get_course_detail cid u (hide_other_tenants (user_tenant_id u) db)
         = get_course_detail cid u db"
proof (cases "find (enrollment_for cid u) (course_enrollments db)")
  case None
  then show ?thesis
    by (simp add: get_course_detail_def hide_enrollment_find cong: option.case_cong)
next
  case (Some e)
  from find_Some_set[OF Some] have e: "e \<in> set (course_enrollments db)"
    "ce_course_id e = cid" "ce_student_id e = user_id u" "ce_tenant_id e = user_tenant_id u"
    by (simp_all add: enrollment_for_def)
  have "find (\<lambda>c. course_id c = cid \<and> course_is_active c)
          (filter (\<lambda>c. course_tenant_id c = user_tenant_id u) (courses db))
        = find (\<lambda>c. course_id c = cid \<and> course_is_active c) (courses db)"
  proof (rule find_filter_same)
    fix c
    assume "c \<in> set (courses db)" "course_id c = cid \<and> course_is_active c"
    with assms e show "course_tenant_id c = user_tenant_id u"
      by (auto simp: own_enrollments_in_tenant_def)
  qed
  then have "find (\<lambda>c. course_id c = cid \<and> course_is_active c)
          (courses (hide_other_tenants (user_tenant_id u) db))
        = find (\<lambda>c. course_id c = cid \<and> course_is_active c) (courses db)"
    by (simp add: hide_other_tenants_def)
  with Some show ?thesis
    by (simp add: get_course_detail_def hide_enrollment_find cong: option.case_cong)
qed

text \<open>
  C1. Tenant isolation asks that no read operation returns or lists a course, module,
  lesson or enrollment row of another tenant, and that such a row is indistinguishable from
  a nonexistent one. The course queries of \<open>get_my_courses\<close> and \<open>get_course_detail\<close> select
  by id and \<open>is_active\<close> alone, without the tenant filter that the module and lesson queries
  carry. In the database where an enrollment row of the student, with the student's tenant
  1, points at course 101 of tenant 2, the student gets that course in the listing and gets
  its detail, whereas with the rows of tenant 2 absent the detail request is answered 404.
\<close>

theorem course_of_other_tenant_returned:
  "course_tenant_id foreign_course \<noteq> user_tenant_id rahul
   \<and> get_my_courses rahul cross_db = [CourseBasic_of anatomy, CourseBasic_of foreign_course]
   \<and> get_course_detail 101 rahul cross_db = Inr (CourseDetail_of foreign_course)
   \<and> get_course_detail 101 rahul (hide_other_tenants (user_tenant_id rahul) cross_db)
       = Inl (HTTPException 404 ''Course not found'')"
  by (simp add: get_my_courses_def get_course_detail_def enrollment_for_def
      hide_other_tenants_def demo_defs)

end
